theory Spec2Isabelle
  imports Main "HOL-Library.Sublist"
begin

section \<open>Python values, errors and strings\<close>

text \<open>
  The client of \<^verbatim>\<open>cloudflare.py\<close> is embedded function by function. Python strings are
  \<^typ>\<open>string\<close> (a character is a code point below 256), Python's unbounded integers
  are \<^typ>\<open>int\<close>, and every exception the code can raise is a value of \<open>py_error\<close>
  returned on the left of a sum.
\<close>

datatype py_error =
    IOError            \<comment> \<open>\<open>open\<close> failed (\<open>IOError\<close> is \<open>OSError\<close> in Python 3)\<close>
  | ValueError         \<comment> \<open>\<open>open\<close> refused a path with an embedded null byte\<close>
  | KeyError           \<comment> \<open>a dict has no such key\<close>
  | TypeError          \<comment> \<open>a value that is not a dict was subscripted with a string\<close>
  | JSONDecodeError    \<comment> \<open>\<open>response.json()\<close> could not decode the body\<close>
  | RequestException   \<comment> \<open>\<open>requests\<close> failed to obtain a response\<close>

text \<open>
  A naive \<open>datetime\<close>, as \<open>createDirectUploadLink\<close> receives it. The client only stores
  it in the query parameters.
\<close>

datatype datetime = Datetime int int int int int int int

text \<open>
  The Python values the client handles: what \<open>json()\<close> decodes to, and what the client
  puts into payloads. A dict is an association list that \<open>map_of\<close> reads (the first binding
  of a key is the dict's value for it). JSON numbers with a fraction or an exponent, which
  decode to floats, are not represented.
\<close>

datatype pyval =
    PNone
  | PBool bool
  | PInt int
  | PStr string
  | PList "pyval list"
  | PDict "(string \<times> pyval) list"
  | PDatetime datetime

text \<open>
  \<open>v[k]\<close> for a string key \<open>k\<close>: a dict raises \<open>KeyError\<close> on a missing key; \<open>None\<close>,
  booleans, integers and datetimes are not subscriptable, strings and lists take integer
  indices only, and all of these raise \<open>TypeError\<close>.
\<close>

fun getitem :: "pyval \<Rightarrow> string \<Rightarrow> py_error + pyval" where
  "getitem (PDict kvs) k = (case map_of kvs k of None \<Rightarrow> Inl KeyError | Some v \<Rightarrow> Inr v)"
| "getitem _ k = Inl TypeError"


text \<open>Sequencing of computations that may raise.\<close>

definition and_then :: "'e + 'a \<Rightarrow> ('a \<Rightarrow> 'e + 'b) \<Rightarrow> 'e + 'b" where
  "and_then r f = (case r of Inl e \<Rightarrow> Inl e | Inr v \<Rightarrow> f v)"

text \<open>
  \<open>x != s\<close> for a string \<open>s\<close>, and \<open>x != n\<close> for an integer \<open>n\<close>. Python compares a
  boolean with an integer by value (\<open>True == 1\<close>, \<open>False == 0\<close>); values of different kinds
  are otherwise unequal.
\<close>

fun py_ne_str :: "pyval \<Rightarrow> string \<Rightarrow> bool" where
  "py_ne_str (PStr t) s = (t \<noteq> s)"
| "py_ne_str _ s = True"

fun py_ne_int :: "pyval \<Rightarrow> int \<Rightarrow> bool" where
  "py_ne_int (PInt m) n = (m \<noteq> n)"
| "py_ne_int (PBool b) n = ((if b then 1 else 0) \<noteq> n)"
| "py_ne_int _ n = True"

subsection \<open>String methods\<close>

text \<open>
  \<open>str.lower()\<close> on code points below 256: the letters \<open>A\<close> to \<open>Z\<close> and the Latin-1
  capitals (192 to 222, without the multiplication sign 215) move up by 32.
\<close>

definition lower_char :: "char \<Rightarrow> char" where
  "lower_char c =
     (let n = (of_char c :: nat)
      in if (65 \<le> n \<and> n \<le> 90) \<or> (192 \<le> n \<and> n \<le> 222 \<and> n \<noteq> 215)
         then char_of (n + 32) else c)"

definition lower :: "string \<Rightarrow> string" where
  "lower s = map lower_char s"

definition startswith :: "string \<Rightarrow> string \<Rightarrow> bool" where
  "startswith s p = prefix p s"

text \<open>
  \<open>s.replace(old, new)\<close>: every occurrence of \<open>old\<close>, found from the left without
  overlaps, becomes \<open>new\<close>. For an empty \<open>old\<close> Python puts \<open>new\<close> before every character
  and at the end.
\<close>

function replace :: "string \<Rightarrow> string \<Rightarrow> string \<Rightarrow> string" where
  "replace s old new =
     (if old = [] then new @ concat (map (\<lambda>c. c # new) s)
      else if s = [] then []
      else if prefix old s then new @ replace (drop (length old) s) old new
      else hd s # replace (tl s) old new)"
  by pat_completeness auto
termination
  by (relation "measure (\<lambda>(s, old, new). length s)") auto

declare replace.simps [simp del]

text \<open>\<open>old in s\<close> for strings: \<open>old\<close> occurs in \<open>s\<close> at some position.\<close>

fun contains :: "string \<Rightarrow> string \<Rightarrow> bool" where
  "contains [] old = (old = [])"
| "contains (c # cs) old = (prefix old (c # cs) \<or> contains cs old)"

subsection \<open>\<open>os.path.splitext\<close>\<close>

text \<open>
  \<open>str.rfind\<close> for a single character: the highest index holding it, or \<open>-1\<close>.
\<close>

definition rfind :: "string \<Rightarrow> char \<Rightarrow> int" where
  "rfind p c =
     (if c \<in> set p
      then int (length p) - 1 - int (length (takeWhile (\<lambda>x. x \<noteq> c) (rev p)))
      else -1)"

text \<open>
  The loop of \<open>genericpath._splitext\<close> that skips the leading dots of the file name: it
  answers whether a character other than the extension separator stands between
  \<open>filenameIndex\<close> and \<open>dotIndex\<close>.
\<close>

function splitext_loop :: "string \<Rightarrow> char \<Rightarrow> nat \<Rightarrow> nat \<Rightarrow> bool" where
  "splitext_loop p extsep filenameIndex dotIndex =
     (if filenameIndex < dotIndex
      then (if p ! filenameIndex \<noteq> extsep then True
            else splitext_loop p extsep (filenameIndex + 1) dotIndex)
      else False)"
  by pat_completeness auto
termination
  by (relation "measure (\<lambda>(p, extsep, filenameIndex, dotIndex). dotIndex - filenameIndex)") auto

declare splitext_loop.simps [simp del]

definition splitext_generic :: "string \<Rightarrow> char \<Rightarrow> char option \<Rightarrow> char \<Rightarrow> string \<times> string" where
  "splitext_generic p sep altsep extsep =
     (let sepIndex = (case altsep of None \<Rightarrow> rfind p sep
                      | Some a \<Rightarrow> max (rfind p sep) (rfind p a));
          dotIndex = rfind p extsep
      in if dotIndex > sepIndex \<and> splitext_loop p extsep (nat (sepIndex + 1)) (nat dotIndex)
         then (take (nat dotIndex) p, drop (nat dotIndex) p)
         else (p, []))"

text \<open>\<open>os.path.splitext\<close> of \<open>posixpath\<close>: the separator is \<open>/\<close>, there is no alternative one.\<close>

definition splitext :: "string \<Rightarrow> string \<times> string" where
  "splitext p = splitext_generic p (CHR ''/'') None (CHR ''.'')"

section \<open>The client\<close>

definition ENDPOINT_BASE :: string where
  "ENDPOINT_BASE = ''https://api.cloudflare.com/client/v4''"

definition SUPPORTED_FORMATS :: "string list" where
  "SUPPORTED_FORMATS = [''.png'', ''.gif'', ''.jpeg'', ''.jpg'', ''.webp'', ''.svg'']"

definition MAX_WIDTH :: int where
  "MAX_WIDTH = 10000"

definition MAX_HEIGHT :: int where
  "MAX_HEIGHT = 10000"

definition MAX_SIZE_MB :: int where
  "MAX_SIZE_MB = 10"

record CloudFlareImages =
  apiKey :: string
  accountId :: string
  email :: string
  accountHash :: string
  requestHeaders :: "(string \<times> string) list"
  authenticatedUploadURL :: string

text \<open>The constructor \<open>__init__\<close>.\<close>

definition init :: "string \<Rightarrow> string \<Rightarrow> string \<Rightarrow> string \<Rightarrow> CloudFlareImages" where
  "init apiKey' accountId' email' accountHash' =
     \<lparr> apiKey = apiKey',
       accountId = accountId',
       email = email',
       accountHash = accountHash',
       requestHeaders = [(''X-Auth-Key'', apiKey'), (''X-Auth-Email'', email')],
       authenticatedUploadURL = ''accounts/'' @ accountId' @ ''/images/v2/direct_upload'' \<rparr>"

definition checkIfImageSupported :: "CloudFlareImages \<Rightarrow> string \<Rightarrow> bool" where
  "checkIfImageSupported self path =
     (let file_extension = lower (snd (splitext path))
      in file_extension \<in> set SUPPORTED_FORMATS)"

definition getCustomizedURL :: "CloudFlareImages \<Rightarrow> string \<Rightarrow> string \<Rightarrow> string \<Rightarrow> string" where
  "getCustomizedURL self domain imageId variant =
     (let domain1 = lower domain;
          domain2 = (if startswith domain1 ''http://''
                     then replace domain1 ''http://'' ''https://''
                     else if \<not> startswith domain1 ''https://''
                     then ''https://'' @ domain1
                     else domain1)
      in domain2 @ ''/cdn-cgi/imagedelivery/'' @ accountHash self @ ''/'' @ imageId @ ''/'' @ variant)"

subsection \<open>Requests, responses and the world outside\<close>

datatype http_method = GET | POST | DELETE

text \<open>The object \<open>open(imagePath, "rb")\<close> returns: the name it was opened under and its bytes.\<close>

record file_handle =
  file_name :: string
  file_data :: string

text \<open>
  One call of \<open>requests.get\<close>, \<open>requests.post\<close> or \<open>requests.delete\<close>: the URL and the
  keyword arguments \<open>headers\<close>, \<open>params\<close>, \<open>json\<close> and \<open>files\<close> (\<open>None\<close> when the call
  does not pass them).
\<close>

record request =
  req_method :: http_method
  req_url :: string
  req_headers :: "(string \<times> string) list"
  req_params :: "(string \<times> pyval) list option"
  req_json :: "pyval option"
  req_files :: "(string \<times> file_handle) list option"

text \<open>
  A response: its \<open>text\<close> attribute, and what its \<open>json()\<close> method returns or raises.
\<close>

record response =
  resp_text :: string
  resp_json :: "py_error + pyval"

text \<open>
  The world the client acts on: the requests sent so far, in order; the remote service,
  which answers a request given the requests before it (or fails); and the files of the
  file system that can be read, with their bytes.
\<close>

record world =
  sent :: "request list"
  server :: "request list \<Rightarrow> request \<Rightarrow> py_error + response"
  files :: "string \<Rightarrow> string option"

type_synonym 'a io = "world \<Rightarrow> (py_error + 'a) \<times> world"

text \<open>
  The readable file at a path, if there is one. No file name holds a null byte, so there is
  none at a path that contains one, whatever \<open>files\<close> says.
\<close>

definition disk :: "world \<Rightarrow> string \<Rightarrow> string option" where
  "disk w path = (if CHR 0x00 \<in> set path then None else files w path)"

definition send :: "request \<Rightarrow> response io" where
  "send r w = (server w (sent w) r, w\<lparr>sent := sent w @ [r]\<rparr>)"

definition requests_get :: "string \<Rightarrow> (string \<times> string) list \<Rightarrow> response io" where
  "requests_get u hs =
     send \<lparr>req_method = GET, req_url = u, req_headers = hs,
           req_params = None, req_json = None, req_files = None\<rparr>"

definition requests_delete :: "string \<Rightarrow> (string \<times> string) list \<Rightarrow> response io" where
  "requests_delete u hs =
     send \<lparr>req_method = DELETE, req_url = u, req_headers = hs,
           req_params = None, req_json = None, req_files = None\<rparr>"

definition requests_post ::
  "string \<Rightarrow> (string \<times> string) list \<Rightarrow> (string \<times> pyval) list option \<Rightarrow> pyval option \<Rightarrow>
   (string \<times> file_handle) list option \<Rightarrow> response io" where
  "requests_post u hs ps js fs =
     send \<lparr>req_method = POST, req_url = u, req_headers = hs,
           req_params = ps, req_json = js, req_files = fs\<rparr>"

text \<open>
  \<open>open(path, "rb")\<close>: \<open>ValueError\<close> for a path with an embedded null byte, which Python
  rejects before it asks the file system; \<open>IOError\<close> when the file does not exist or
  cannot be read.
\<close>

definition open_rb :: "string \<Rightarrow> world \<Rightarrow> py_error + file_handle" where
  "open_rb path w =
     (if CHR 0x00 \<in> set path then Inl ValueError
      else case disk w path of
             None \<Rightarrow> Inl IOError
           | Some bytes \<Rightarrow> Inr \<lparr>file_name = path, file_data = bytes\<rparr>)"

text \<open>\<open>.json()\<close> and \<open>.text\<close> applied to the outcome of a request.\<close>

definition json_of :: "(py_error + response) \<times> world \<Rightarrow> (py_error + pyval) \<times> world" where
  "json_of out = (case out of (Inl e, w) \<Rightarrow> (Inl e, w) | (Inr resp, w) \<Rightarrow> (resp_json resp, w))"

definition text_of :: "(py_error + response) \<times> world \<Rightarrow> (py_error + string) \<times> world" where
  "text_of out = (case out of (Inl e, w) \<Rightarrow> (Inl e, w) | (Inr resp, w) \<Rightarrow> (Inr (resp_text resp), w))"

subsection \<open>The operations\<close>

definition listImages :: "CloudFlareImages \<Rightarrow> int \<Rightarrow> int \<Rightarrow> pyval io" where
  "listImages self page perPage w =
     (let endpoint = ENDPOINT_BASE @ ''/accounts/'' @ accountId self @ ''/images/v1''
      in json_of (requests_get endpoint (requestHeaders self) w))"

definition createDirectUploadLink ::
  "CloudFlareImages \<Rightarrow> bool \<Rightarrow> (string \<times> pyval) list option \<Rightarrow> datetime option \<Rightarrow> pyval io" where
  "createDirectUploadLink self requireSignedURLs metaData expiry w =
     (let endpoint = ENDPOINT_BASE @ ''/accounts/'' @ accountId self @ ''/images/v2/direct_upload'';
          payload0 = [(''requireSignedURLs'', PBool requireSignedURLs)];
          payload1 = (case metaData of None \<Rightarrow> payload0
                      | Some m \<Rightarrow> payload0 @ [(''metadata'', PDict m)]);
          payload2 = (case expiry of None \<Rightarrow> payload1
                      | Some d \<Rightarrow> payload1 @ [(''expiry'', PDatetime d)])
      in json_of (requests_post endpoint (requestHeaders self) (Some payload2) None None w))"

text \<open>
  \<open>upload\<close> opens the file first, then reads the upload URL out of the descriptor, then
  posts. A URL that is not a string never reaches the network: \<open>requests\<close> turns it into
  text with \<open>str\<close>, finds no \<open>http\<close> scheme in it and raises.
\<close>

definition upload :: "CloudFlareImages \<Rightarrow> pyval \<Rightarrow> string \<Rightarrow> string io" where
  "upload self directUploadResponse imagePath w =
     (case open_rb imagePath w of
        Inl e \<Rightarrow> (Inl e, w)
      | Inr f \<Rightarrow>
          (let file = [(''file'', f)]
           in case and_then (getitem directUploadResponse ''result'') (\<lambda>r. getitem r ''uploadURL'') of
                Inl e \<Rightarrow> (Inl e, w)
              | Inr (PStr u) \<Rightarrow> text_of (requests_post u (requestHeaders self) None None (Some file) w)
              | Inr _ \<Rightarrow> (Inl RequestException, w)))"

definition listVariants :: "CloudFlareImages \<Rightarrow> pyval io" where
  "listVariants self w =
     json_of (requests_get (ENDPOINT_BASE @ ''/accounts/'' @ accountId self @ ''/images/v1/variants'')
                (requestHeaders self) w)"

definition createVariant ::
  "CloudFlareImages \<Rightarrow> string \<Rightarrow> string \<Rightarrow> int \<Rightarrow> int \<Rightarrow> string \<Rightarrow> bool \<Rightarrow> pyval io" where
  "createVariant self name fitType width height metaDataToSave neverRequireSignedURLs w =
     (let payload = PDict [
            (''id'', PStr name),
            (''options'', PDict [
               (''fit'', PStr fitType),
               (''metadata'', PStr metaDataToSave),
               (''width'', PInt width),
               (''height'', PInt height)]),
            (''neverRequireSignedURLs'', PBool neverRequireSignedURLs)]
      in json_of (requests_post (ENDPOINT_BASE @ ''/accounts/'' @ accountId self @ ''/images/v1/variants'')
                    (requestHeaders self) None (Some payload) None w))"

definition deleteImage :: "CloudFlareImages \<Rightarrow> string \<Rightarrow> pyval io" where
  "deleteImage self id' w =
     json_of (requests_delete (ENDPOINT_BASE @ ''/accounts/'' @ accountId self @ ''/images/v1/'' @ id')
                (requestHeaders self) w)"

definition getVariantDetails :: "CloudFlareImages \<Rightarrow> string \<Rightarrow> pyval io" where
  "getVariantDetails self name w =
     json_of (requests_get
                (ENDPOINT_BASE @ ''/accounts/'' @ accountId self @ ''/images/v1/variants/'' @ name)
                (requestHeaders self) w)"

text \<open>
  The dict literal that \<open>updateVariant\<close> posts, built from the fetched \<open>options\<close> and the
  arguments. Its four entries are evaluated in the order written; each reads the fetched
  value, which raises when \<open>details\<close> has no such key or is not a dict.
\<close>

definition updateVariant_payload ::
  "pyval \<Rightarrow> string \<Rightarrow> int \<Rightarrow> int \<Rightarrow> string \<Rightarrow> py_error + pyval" where
  "updateVariant_payload details fitType width height metaDataToSave =
     and_then (getitem details ''fit'') (\<lambda>d_fit.
     and_then (getitem details ''metadata'') (\<lambda>d_metadata.
     and_then (getitem details ''width'') (\<lambda>d_width.
     and_then (getitem details ''height'') (\<lambda>d_height.
       Inr (PDict [
         (''fit'', if py_ne_str d_fit fitType then PStr fitType else d_fit),
         (''metadata'', if py_ne_str d_metadata metaDataToSave then PStr metaDataToSave else d_metadata),
         (''width'', if py_ne_int d_width width then PInt width else d_width),
         (''height'', if py_ne_int d_height height then PInt width else d_height)])))))"

definition updateVariant ::
  "CloudFlareImages \<Rightarrow> string \<Rightarrow> string \<Rightarrow> int \<Rightarrow> int \<Rightarrow> string \<Rightarrow> pyval io" where
  "updateVariant self name fitType width height metaDataToSave w =
     (case getVariantDetails self name w of
        (Inl e, w1) \<Rightarrow> (Inl e, w1)
      | (Inr fetched, w1) \<Rightarrow>
          (case and_then (getitem fetched ''result'') (\<lambda>r.
                and_then (getitem r name) (\<lambda>v. getitem v ''options'')) of
             Inl e \<Rightarrow> (Inl e, w1)
           | Inr details \<Rightarrow>
               (case updateVariant_payload details fitType width height metaDataToSave of
                  Inl e \<Rightarrow> (Inl e, w1)
                | Inr payload \<Rightarrow>
                    json_of (requests_post
                               (ENDPOINT_BASE @ ''/accounts/'' @ accountId self @ ''/images/v1/variants/'' @ name)
                               (requestHeaders self) None (Some payload) None w1))))"

definition deleteVariant :: "CloudFlareImages \<Rightarrow> string \<Rightarrow> pyval io" where
  "deleteVariant self name w =
     json_of (requests_delete
                (ENDPOINT_BASE @ ''/accounts/'' @ accountId self @ ''/images/v1/variants/'' @ name)
                (requestHeaders self) w)"

definition getImageDetails :: "CloudFlareImages \<Rightarrow> string \<Rightarrow> pyval io" where
  "getImageDetails self id' w =
     json_of (requests_get (ENDPOINT_BASE @ ''/accounts/'' @ accountId self @ ''/images/v1/'' @ id')
                (requestHeaders self) w)"

text \<open>The requests an operation sent: what it appended to the world's log.\<close>

definition issued :: "world \<Rightarrow> ('a \<times> world) \<Rightarrow> request list" where
  "issued w out = drop (length (sent w)) (sent (snd out))"

subsection \<open>The requests the operations are expected to send\<close>

text \<open>
  The fixed path that \<open>getCustomizedURL\<close> appends, and the requests of \<open>upload\<close>,
  \<open>getVariantDetails\<close> and \<open>updateVariant\<close>, named so that the theorems can state them.
\<close>

definition url_path :: "CloudFlareImages \<Rightarrow> string \<Rightarrow> string \<Rightarrow> string" where
  "url_path self imageId variant =
     ''/cdn-cgi/imagedelivery/'' @ accountHash self @ ''/'' @ imageId @ ''/'' @ variant"

definition upload_request :: "CloudFlareImages \<Rightarrow> string \<Rightarrow> string \<Rightarrow> string \<Rightarrow> request" where
  "upload_request self u path bytes =
     \<lparr>req_method = POST, req_url = u, req_headers = requestHeaders self,
      req_params = None, req_json = None,
      req_files = Some [(''file'', \<lparr>file_name = path, file_data = bytes\<rparr>)]\<rparr>"

definition variant_get :: "CloudFlareImages \<Rightarrow> string \<Rightarrow> request" where
  "variant_get self name =
     \<lparr>req_method = GET,
      req_url = ENDPOINT_BASE @ ''/accounts/'' @ accountId self @ ''/images/v1/variants/'' @ name,
      req_headers = requestHeaders self,
      req_params = None, req_json = None, req_files = None\<rparr>"

definition variant_post :: "CloudFlareImages \<Rightarrow> string \<Rightarrow> pyval \<Rightarrow> request" where
  "variant_post self name payload =
     \<lparr>req_method = POST,
      req_url = ENDPOINT_BASE @ ''/accounts/'' @ accountId self @ ''/images/v1/variants/'' @ name,
      req_headers = requestHeaders self,
      req_params = None, req_json = Some payload, req_files = None\<rparr>"


subsection \<open>The specification's reading of \<open>getCustomizedURL\<close>\<close>

text \<open>
  The URL as the specification words it: the lower-cased domain, a leading \<open>http://\<close>
  turned into \<open>https://\<close>, a bare domain prefixed with \<open>https://\<close>, then the fixed path.
\<close>

definition spec_getCustomizedURL :: "CloudFlareImages \<Rightarrow> string \<Rightarrow> string \<Rightarrow> string \<Rightarrow> string" where
  "spec_getCustomizedURL self domain imageId variant =
     (let d = lower domain
      in (if prefix ''http://'' d then ''https://'' @ drop (length ''http://'') d
          else if prefix ''https://'' d then d
          else ''https://'' @ d)
         @ url_path self imageId variant)"

subsection \<open>Example inputs\<close>

definition example_client :: CloudFlareImages where
  "example_client = init ''key'' ''acct'' ''me@example.com'' ''hash''"

text \<open>The fetched options of the specification's \<open>updateVariant\<close> example.\<close>

definition example_details :: pyval where
  "example_details =
     PDict [(''fit'', PStr ''cover''), (''width'', PInt 100), (''height'', PInt 200),
            (''metadata'', PStr ''none'')]"

text \<open>The same options with another fetched width.\<close>

definition example_details_wide :: pyval where
  "example_details_wide =
     PDict [(''fit'', PStr ''cover''), (''width'', PInt 640), (''height'', PInt 200),
            (''metadata'', PStr ''none'')]"

definition example_response :: response where
  "example_response =
     \<lparr>resp_text = ''raw body'',
      resp_json = Inr (PDict [(''result'', PDict [(''thumb'', PDict [(''options'', example_details)])])])\<rparr>"

text \<open>
  A world in which nothing has been sent yet, the service answers every request with
  \<open>example_response\<close>, and the only file is \<open>photo.bmp\<close>.
\<close>

definition example_world :: world where
  "example_world =
     \<lparr>sent = [],
      server = (\<lambda>history r. Inr example_response),
      files = (\<lambda>path. if path = ''photo.bmp'' then Some ''BM'' else None)\<rparr>"


definition example_descriptor :: pyval where
  "example_descriptor =
     PDict [(''result'', PDict [(''id'', PStr ''img1''), (''uploadURL'', PStr ''https://x/up'')])]"

section \<open>What an operation sends and returns\<close>

lemma issued_json_of_send: "issued w (json_of (send r w)) = [r]"
  by (simp add: issued_def json_of_def send_def split: sum.splits prod.splits)

lemma issued_text_of_send: "issued w (text_of (send r w)) = [r]"
  by (simp add: issued_def text_of_def send_def split: sum.splits prod.splits)



lemma issued_unchanged: "issued w (x, w) = []"
  by (simp add: issued_def)

section \<open>Pagination and the upload-link payload\<close>

text \<open>
  C5: \<open>listImages\<close> accepts \<open>page\<close> and \<open>perPage\<close> and forwards neither. Two calls in the
  same world that differ only in these arguments have the same outcome, and the one
  request sent is a GET of the account's image list with the client's headers and no
  parameters, body or files.
\<close>

theorem listImages_ignores_pagination:
  "listImages self page1 perPage1 w = listImages self page2 perPage2 w
   \<and> issued w (listImages self page1 perPage1 w) =
       [\<lparr>req_method = GET,
         req_url = ENDPOINT_BASE @ ''/accounts/'' @ accountId self @ ''/images/v1'',
         req_headers = requestHeaders self,
         req_params = None, req_json = None, req_files = None\<rparr>]"
  by (simp add: listImages_def requests_get_def issued_json_of_send)

text \<open>
  C4: \<open>createDirectUploadLink\<close> sends one POST whose payload always has the key
  \<open>requireSignedURLs\<close>, has the key \<open>metadata\<close> exactly when \<open>metaData\<close> is not \<open>None\<close> and
  the key \<open>expiry\<close> exactly when \<open>expiry\<close> is not \<open>None\<close>. An unset argument leaves its key
  out of the payload; it is not stored with a null value.
\<close>

theorem createDirectUploadLink_payload_keys:
  "\<exists>payload.
     issued w (createDirectUploadLink self requireSignedURLs metaData expiry w) =
       [\<lparr>req_method = POST,
         req_url = ENDPOINT_BASE @ ''/accounts/'' @ accountId self @ ''/images/v2/direct_upload'',
         req_headers = requestHeaders self,
         req_params = Some payload, req_json = None, req_files = None\<rparr>]
     \<and> map fst payload =
         [''requireSignedURLs''] @ (if metaData = None then [] else [''metadata''])
           @ (if expiry = None then [] else [''expiry''])
     \<and> map_of payload ''requireSignedURLs'' = Some (PBool requireSignedURLs)
     \<and> map_of payload ''metadata'' = map_option PDict metaData
     \<and> map_of payload ''expiry'' = map_option PDatetime expiry"
  by (cases metaData; cases expiry)
     (simp_all add: createDirectUploadLink_def requests_post_def issued_json_of_send)

section \<open>The customized URL\<close>

lemma replace_at_occurrence:
  "old \<noteq> [] \<Longrightarrow> prefix old s \<Longrightarrow> replace s old new = new @ replace (drop (length old) s) old new"
  by (subst replace.simps) auto

lemma replace_without_occurrence:
  "old \<noteq> [] \<Longrightarrow> \<not> contains s old \<Longrightarrow> replace s old new = s"
proof (induction s)
  case Nil
  then show ?case by (subst replace.simps) simp
next
  case (Cons c cs)
  then show ?case by (subst replace.simps) simp
qed

lemma getCustomizedURL_unfold:
  "getCustomizedURL self domain imageId variant =
     (if prefix ''http://'' (lower domain)
      then replace (lower domain) ''http://'' ''https://''
      else if prefix ''https://'' (lower domain) then lower domain
      else ''https://'' @ lower domain)
     @ url_path self imageId variant"
  by (simp add: getCustomizedURL_def startswith_def url_path_def Let_def del: prefix_code)

lemma replace_leading_http:
  "prefix ''http://'' d \<Longrightarrow>
   replace d ''http://'' ''https://'' = ''https://'' @ replace (drop (length ''http://'') d) ''http://'' ''https://''"
  using replace_at_occurrence [of "''http://''" d "''https://''"] by simp

lemma getCustomizedURL_https: "prefix ''https://'' (getCustomizedURL self domain imageId variant)"
proof -
  have a: "prefix ''https://'' (''https://'' @ xs)" for xs :: string
    by (rule prefixI) simp
  have b: "prefix ''https://'' (lower domain) \<Longrightarrow> prefix ''https://'' (lower domain @ ys)" for ys
    by (rule prefix_prefix)
  show ?thesis
  proof (cases "prefix ''http://'' (lower domain)")
    case True
    then show ?thesis
      unfolding getCustomizedURL_unfold using a by (simp add: replace_leading_http del: prefix_code)
  next
    case False
    then show ?thesis
      unfolding getCustomizedURL_unfold using a b by (simp del: prefix_code)
  qed
qed

lemma getCustomizedURL_upper_example:
  "getCustomizedURL self ''HTTP://Example.com'' imageId variant = ''https://example.com'' @ url_path self imageId variant"
proof -
  have l: "lower ''HTTP://Example.com'' = ''http://example.com''" by code_simp
  have r: "replace ''http://example.com'' ''http://'' ''https://'' = ''https://example.com''" by code_simp
  show ?thesis unfolding getCustomizedURL_unfold l by (simp add: r)
qed

lemma getCustomizedURL_bare_example:
  "getCustomizedURL self ''example.com'' imageId variant = ''https://example.com'' @ url_path self imageId variant"
proof -
  have l: "lower ''example.com'' = ''example.com''" by code_simp
  show ?thesis unfolding getCustomizedURL_unfold l by simp
qed

lemma getCustomizedURL_spec:
  assumes "\<not> contains (drop (length ''http://'') (lower domain)) ''http://''"
  shows "getCustomizedURL self domain imageId variant = spec_getCustomizedURL self domain imageId variant"
proof (cases "prefix ''http://'' (lower domain)")
  case True
  then show ?thesis
    unfolding getCustomizedURL_unfold spec_getCustomizedURL_def Let_def
    using assms by (simp add: replace_leading_http replace_without_occurrence del: prefix_code)
next
  case False
  then show ?thesis
    unfolding getCustomizedURL_unfold spec_getCustomizedURL_def Let_def by (simp del: prefix_code)
qed

text \<open>
  The specification's reading of C3 fails where \<open>http://\<close> occurs again after the leading
  one: \<open>replace\<close> rewrites every occurrence, not only the first.
\<close>

theorem getCustomizedURL_leading_only_counterexample:
  "getCustomizedURL example_client ''http://a/http://b'' ''id1'' ''v1''
     = ''https://a/https://b/cdn-cgi/imagedelivery/hash/id1/v1''
   \<and> spec_getCustomizedURL example_client ''http://a/http://b'' ''id1'' ''v1''
     = ''https://a/http://b/cdn-cgi/imagedelivery/hash/id1/v1''
   \<and> getCustomizedURL example_client ''http://a/http://b'' ''id1'' ''v1''
     \<noteq> spec_getCustomizedURL example_client ''http://a/http://b'' ''id1'' ''v1''"
  by code_simp

text \<open>
  C3, as amended: \<open>getCustomizedURL\<close> is a function of its arguments and the account hash
  alone (it takes no world and sends nothing). It returns the lower-cased domain, in which
  every occurrence of \<open>http://\<close> is replaced by \<open>https://\<close> when it starts with \<open>http://\<close>,
  and which is prefixed with \<open>https://\<close> when it starts with neither scheme, followed by
  \<open>/cdn-cgi/imagedelivery/<accountHash>/<imageId>/<variant>\<close>. The result always starts with
  \<open>https://\<close>; \<open>HTTP://Example.com\<close> and \<open>example.com\<close> give the same URL; and when
  \<open>http://\<close> does not occur after the leading scheme, the result is the one the
  specification words.
\<close>

theorem getCustomizedURL_normalizes:
  "getCustomizedURL self domain imageId variant =
     (if prefix ''http://'' (lower domain)
      then replace (lower domain) ''http://'' ''https://''
      else if prefix ''https://'' (lower domain) then lower domain
      else ''https://'' @ lower domain)
     @ ''/cdn-cgi/imagedelivery/'' @ accountHash self @ ''/'' @ imageId @ ''/'' @ variant
   \<and> prefix ''https://'' (getCustomizedURL self domain imageId variant)
   \<and> getCustomizedURL self ''HTTP://Example.com'' imageId variant
       = ''https://example.com/cdn-cgi/imagedelivery/'' @ accountHash self @ ''/'' @ imageId @ ''/'' @ variant
   \<and> getCustomizedURL self ''example.com'' imageId variant
       = getCustomizedURL self ''HTTP://Example.com'' imageId variant
   \<and> (\<not> contains (drop (length ''http://'') (lower domain)) ''http://''
        \<longrightarrow> getCustomizedURL self domain imageId variant
            = spec_getCustomizedURL self domain imageId variant)"
proof -
  have 1: "getCustomizedURL self domain imageId variant =
     (if prefix ''http://'' (lower domain)
      then replace (lower domain) ''http://'' ''https://''
      else if prefix ''https://'' (lower domain) then lower domain
      else ''https://'' @ lower domain)
     @ ''/cdn-cgi/imagedelivery/'' @ accountHash self @ ''/'' @ imageId @ ''/'' @ variant"
    unfolding getCustomizedURL_unfold url_path_def ..
  have 3: "getCustomizedURL self ''HTTP://Example.com'' imageId variant
       = ''https://example.com/cdn-cgi/imagedelivery/'' @ accountHash self @ ''/'' @ imageId @ ''/'' @ variant"
    by (simp add: getCustomizedURL_upper_example url_path_def)
  have 4: "getCustomizedURL self ''example.com'' imageId variant
       = getCustomizedURL self ''HTTP://Example.com'' imageId variant"
    by (simp only: getCustomizedURL_upper_example getCustomizedURL_bare_example)
  from 1 getCustomizedURL_https 3 4 getCustomizedURL_spec show ?thesis by blast
qed

theorem getCustomizedURL_normalizes_witness:
  "\<not> contains (drop (length ''http://'') (lower ''HTTP://Example.com'')) ''http://''
   \<and> getCustomizedURL example_client ''HTTP://Example.com'' ''id1'' ''v1''
       = spec_getCustomizedURL example_client ''HTTP://Example.com'' ''id1'' ''v1''
   \<and> getCustomizedURL example_client ''HTTP://Example.com'' ''id1'' ''v1''
       = ''https://example.com/cdn-cgi/imagedelivery/hash/id1/v1''"
proof -
  have h: "\<not> contains (drop (length ''http://'') (lower ''HTTP://Example.com'')) ''http://''"
    by code_simp
  have a: "accountHash example_client = ''hash''"
    by (simp add: example_client_def init_def)
  note t = getCustomizedURL_normalizes [of example_client "''HTTP://Example.com''" "''id1''" "''v1''"]
  from t h have s: "getCustomizedURL example_client ''HTTP://Example.com'' ''id1'' ''v1''
       = spec_getCustomizedURL example_client ''HTTP://Example.com'' ''id1'' ''v1''"
    by blast
  from t have "getCustomizedURL example_client ''HTTP://Example.com'' ''id1'' ''v1''
       = ''https://example.com/cdn-cgi/imagedelivery/'' @ accountHash example_client @ ''/'' @ ''id1'' @ ''/'' @ ''v1''"
    by blast
  then have "getCustomizedURL example_client ''HTTP://Example.com'' ''id1'' ''v1''
       = ''https://example.com/cdn-cgi/imagedelivery/hash/id1/v1''"
    by (simp add: a)
  with h s show ?thesis by blast
qed

section \<open>The format check\<close>

lemma rfind_absent: "c \<notin> set p \<Longrightarrow> rfind p c = -1"
  by (simp add: rfind_def)

lemma rfind_last_occurrence: "c \<notin> set ys \<Longrightarrow> rfind (xs @ c # ys) c = int (length xs)"
proof -
  assume a: "c \<notin> set ys"
  have "takeWhile (\<lambda>x. x \<noteq> c) (rev ys @ c # rev xs) = rev ys"
    using a by (auto simp: takeWhile_append2 takeWhile_tail)
  then show ?thesis by (simp add: rfind_def)
qed

lemma splitext_loop_iff:
  "splitext_loop p extsep i j \<longleftrightarrow> (\<exists>k. i \<le> k \<and> k < j \<and> p ! k \<noteq> extsep)"
proof (induction p extsep i j rule: splitext_loop.induct)
  case (1 p extsep i j)
  show ?case
  proof (cases "i < j")
    case False
    then show ?thesis by (subst splitext_loop.simps) auto
  next
    case True
    show ?thesis
    proof (cases "p ! i \<noteq> extsep")
      case True
      with \<open>i < j\<close> show ?thesis by (subst splitext_loop.simps) auto
    next
      case False
      with \<open>i < j\<close> have "splitext_loop p extsep i j = splitext_loop p extsep (i + 1) j"
        by (subst splitext_loop.simps) simp
      also have "\<dots> \<longleftrightarrow> (\<exists>k. i + 1 \<le> k \<and> k < j \<and> p ! k \<noteq> extsep)"
        using "1.IH" \<open>i < j\<close> False by simp
      also have "\<dots> \<longleftrightarrow> (\<exists>k. i \<le> k \<and> k < j \<and> p ! k \<noteq> extsep)"
        using False by (metis Suc_eq_plus1 Suc_leD Suc_leI le_neq_implies_less)
      finally show ?thesis .
    qed
  qed
qed

text \<open>
  For a path made of a directory part (empty, or ending in a slash), a name holding a
  character other than a dot, a dot, and an extension with neither dot nor slash,
  \<open>splitext\<close> splits at that dot.
\<close>
lemma splitext_name_dot_ext:
  assumes dir: "dir = [] \<or> last dir = CHR ''/''"
    and stem: "CHR ''/'' \<notin> set stem" "\<exists>c\<in>set stem. c \<noteq> CHR ''.''"
    and ext: "CHR ''/'' \<notin> set ext" "CHR ''.'' \<notin> set ext"
  shows "splitext (dir @ stem @ CHR ''.'' # ext) = (dir @ stem, CHR ''.'' # ext)"
proof -
  let ?p = "dir @ stem @ CHR ''.'' # ext"
  have dot: "rfind ?p (CHR ''.'') = int (length dir + length stem)"
    using rfind_last_occurrence [of "CHR ''.''" ext "dir @ stem"] ext by simp
  have sep: "rfind ?p (CHR ''/'') = int (length dir) - 1"
  proof (cases "dir = []")
    case True
    then show ?thesis using stem ext by (simp add: rfind_absent)
  next
    case False
    with dir obtain d where d: "dir = d @ [CHR ''/'']"
      by (metis append_butlast_last_id)
    have "CHR ''/'' \<notin> set (stem @ CHR ''.'' # ext)" using stem ext by simp
    then have "rfind (d @ CHR ''/'' # (stem @ CHR ''.'' # ext)) (CHR ''/'') = int (length d)"
      by (rule rfind_last_occurrence)
    then show ?thesis by (simp add: d)
  qed
  from stem obtain k where k: "k < length stem" "stem ! k \<noteq> CHR ''.''"
    by (metis in_set_conv_nth)
  then have "?p ! (length dir + k) \<noteq> CHR ''.''"
    by (simp add: nth_append)
  with k have loop: "splitext_loop ?p (CHR ''.'') (length dir) (length dir + length stem)"
    unfolding splitext_loop_iff by (intro exI [of _ "length dir + k"]) simp
  have gt: "rfind ?p (CHR ''.'') > rfind ?p (CHR ''/'')"
    by (simp add: dot sep)
  have n: "nat (int (length dir) + int (length stem)) = length dir + length stem"
    by (simp add: nat_add_distrib)
  show ?thesis
    using loop gt by (simp add: splitext_def splitext_generic_def dot sep Let_def n)
qed

lemma checkIfImageSupported_name_dot_ext:
  assumes "dir = [] \<or> last dir = CHR ''/''"
    and "CHR ''/'' \<notin> set stem" "\<exists>c\<in>set stem. c \<noteq> CHR ''.''"
    and "CHR ''/'' \<notin> set ext" "CHR ''.'' \<notin> set ext"
  shows "checkIfImageSupported self (dir @ stem @ CHR ''.'' # ext)
         \<longleftrightarrow> lower ext \<in> {''png'', ''gif'', ''jpeg'', ''jpg'', ''webp'', ''svg''}"
proof -
  have l: "lower (CHR ''.'' # ext) = CHR ''.'' # lower ext"
    by (simp add: lower_def lower_char_def)
  show ?thesis
    by (simp add: checkIfImageSupported_def splitext_name_dot_ext [OF assms] l SUPPORTED_FORMATS_def)
qed

lemma lower_formats: "map lower SUPPORTED_FORMATS = SUPPORTED_FORMATS"
  by code_simp

text \<open>
  C7: the format helper returns true exactly when the extension that \<open>os.path.splitext\<close>
  gives for the path equals, after lower-casing both sides, one of \<open>.png\<close>, \<open>.gif\<close>,
  \<open>.jpeg\<close>, \<open>.jpg\<close>, \<open>.webp\<close>, \<open>.svg\<close>. It is true for \<open>photo.PNG\<close> and false for
  \<open>photo.bmp\<close>.
\<close>

theorem checkIfImageSupported_extension:
  "(checkIfImageSupported self path \<longleftrightarrow>
      (\<exists>f \<in> {''.png'', ''.gif'', ''.jpeg'', ''.jpg'', ''.webp'', ''.svg''}.
         lower (snd (splitext path)) = lower f))
   \<and> checkIfImageSupported self ''photo.PNG''
   \<and> \<not> checkIfImageSupported self ''photo.bmp''"
proof -
  have s: "set SUPPORTED_FORMATS = {''.png'', ''.gif'', ''.jpeg'', ''.jpg'', ''.webp'', ''.svg''}"
    by (simp add: SUPPORTED_FORMATS_def)
  have "lower ` set SUPPORTED_FORMATS = set SUPPORTED_FORMATS"
    using lower_formats by (metis set_map)
  then have "checkIfImageSupported self path \<longleftrightarrow>
      (\<exists>f \<in> set SUPPORTED_FORMATS. lower (snd (splitext path)) = lower f)"
    unfolding checkIfImageSupported_def Let_def by (metis (no_types) imageE image_eqI)
  moreover have "checkIfImageSupported self ''photo.PNG''" by code_simp
  moreover have "\<not> checkIfImageSupported self ''photo.bmp''" by code_simp
  ultimately show ?thesis unfolding s by blast
qed

section \<open>Requests of the operations\<close>

lemma snd_json_of_send: "snd (json_of (send r w)) = w\<lparr>sent := sent w @ [r]\<rparr>"
  by (simp add: json_of_def send_def split: sum.splits prod.splits)


lemma issued_append: "sent w1 = sent w @ [r] \<Longrightarrow> issued w (x, w1) = [r]"
  by (simp add: issued_def)

lemma issued_two: "sent w1 = sent w @ [r] \<Longrightarrow> issued w (json_of (send r2 w1)) = [r, r2]"
  by (simp add: issued_def json_of_def send_def split: sum.splits prod.splits)

subsection \<open>\<open>upload\<close>\<close>

lemma disk_null_byte: "CHR 0x00 \<in> set path \<Longrightarrow> disk w path = None"
  by (simp add: disk_def)

lemma disk_Some_no_null_byte: "disk w path = Some bytes \<Longrightarrow> CHR 0x00 \<notin> set path"
  by (auto simp: disk_def split: if_splits)




lemma upload_posts:
  assumes "disk w imagePath = Some bytes"
    and "and_then (getitem d ''result'') (\<lambda>r. getitem r ''uploadURL'') = Inr (PStr u)"
  shows "upload self d imagePath w = text_of (send (upload_request self u imagePath bytes) w)"
  using assms disk_Some_no_null_byte [OF assms(1)]
  by (simp add: upload_def open_rb_def requests_post_def upload_request_def)

lemma issued_upload_headers:
  "\<forall>r\<in>set (issued w (upload self d imagePath w)). req_headers r = requestHeaders self"
proof (cases "open_rb imagePath w")
  case (Inl e)
  then show ?thesis by (simp add: upload_def issued_unchanged)
next
  case (Inr f)
  show ?thesis
  proof (cases "and_then (getitem d ''result'') (\<lambda>r. getitem r ''uploadURL'')")
    case (Inl e)
    with Inr show ?thesis by (simp add: upload_def issued_unchanged)
  next
    case inner: (Inr v)
    with Inr show ?thesis
      by (cases v) (simp_all add: upload_def issued_unchanged requests_post_def issued_text_of_send)
  qed
qed

subsection \<open>\<open>updateVariant\<close>\<close>

lemma getVariantDetails_eq: "getVariantDetails self name w = json_of (send (variant_get self name) w)"
  by (simp add: getVariantDetails_def requests_get_def variant_get_def)

lemma updateVariant_cases:
  "(\<exists>e. updateVariant self name fitType width height metaDataToSave w
         = (Inl e, w\<lparr>sent := sent w @ [variant_get self name]\<rparr>))
   \<or> (\<exists>fetched details payload.
         fst (getVariantDetails self name w) = Inr fetched
       \<and> and_then (getitem fetched ''result'')
            (\<lambda>r. and_then (getitem r name) (\<lambda>v. getitem v ''options'')) = Inr details
       \<and> updateVariant_payload details fitType width height metaDataToSave = Inr payload
       \<and> updateVariant self name fitType width height metaDataToSave w
         = json_of (send (variant_post self name payload)
                      (w\<lparr>sent := sent w @ [variant_get self name]\<rparr>)))"
proof -
  obtain res w1 where g: "getVariantDetails self name w = (res, w1)"
    by (cases "getVariantDetails self name w")
  have w1: "w1 = w\<lparr>sent := sent w @ [variant_get self name]\<rparr>"
    using g snd_json_of_send [of "variant_get self name" w] by (simp add: getVariantDetails_eq)
  show ?thesis
  proof (cases res)
    case (Inl e)
    with g w1 show ?thesis by (simp add: updateVariant_def)
  next
    case (Inr fetched)
    note f = this
    show ?thesis
    proof (cases "and_then (getitem fetched ''result'')
                    (\<lambda>r. and_then (getitem r name) (\<lambda>v. getitem v ''options''))")
      case (Inl e)
      with g w1 f show ?thesis by (simp add: updateVariant_def)
    next
      case (Inr details)
      note d = this
      show ?thesis
      proof (cases "updateVariant_payload details fitType width height metaDataToSave")
        case (Inl e)
        with g w1 f d show ?thesis by (simp add: updateVariant_def)
      next
        case (Inr payload)
        with g w1 f d show ?thesis
          by (simp add: updateVariant_def requests_post_def variant_post_def)
      qed
    qed
  qed
qed

lemma issued_updateVariant_headers:
  "\<forall>r\<in>set (issued w (updateVariant self name fitType width height metaDataToSave w)).
     req_headers r = requestHeaders self"
  using updateVariant_cases [of self name fitType width height metaDataToSave w]
  by (auto simp: issued_two issued_append variant_get_def variant_post_def)


lemma payload_example:
  "updateVariant_payload example_details ''cover'' 150 250 ''keep'' =
     Inr (PDict [(''fit'', PStr ''cover''), (''metadata'', PStr ''keep''),
                 (''width'', PInt 150), (''height'', PInt 150)])"
  by (simp add: updateVariant_payload_def example_details_def and_then_def)

lemma example_updateVariant:
  "updateVariant example_client ''thumb'' ''cover'' 150 250 ''keep'' example_world =
     json_of (send (variant_post example_client ''thumb''
        (PDict [(''fit'', PStr ''cover''), (''metadata'', PStr ''keep''),
                (''width'', PInt 150), (''height'', PInt 150)]))
        (example_world\<lparr>sent := [variant_get example_client ''thumb'']\<rparr>))"
proof -
  have g: "getVariantDetails example_client ''thumb'' example_world =
     (resp_json example_response, example_world\<lparr>sent := [variant_get example_client ''thumb'']\<rparr>)"
    by (simp add: getVariantDetails_eq json_of_def send_def example_world_def)
  show ?thesis
    by (simp add: updateVariant_def g example_response_def and_then_def payload_example
        requests_post_def variant_post_def)
qed

lemma example_updateVariant_issued:
  "issued example_world
     (updateVariant example_client ''thumb'' ''cover'' 150 250 ''keep'' example_world) =
     [variant_get example_client ''thumb'',
      variant_post example_client ''thumb''
        (PDict [(''fit'', PStr ''cover''), (''metadata'', PStr ''keep''),
                (''width'', PInt 150), (''height'', PInt 150)])]"
  unfolding example_updateVariant by (rule issued_two) (simp add: example_world_def)

section \<open>Updating a variant\<close>

text \<open>
  C1 asks that each of the four posted fields be the new argument where it differs from
  the fetched value, and the fetched value otherwise. The code fetches first and posts
  second, and does so for \<open>fit\<close>, \<open>metadata\<close> and \<open>width\<close>; for \<open>height\<close> it posts the
  \<open>width\<close> argument when the new height differs. With fetched options
  \<open>{fit: cover, width: 100, height: 200, metadata: none}\<close> and the call
  \<open>updateVariant("thumb", "cover", 150, 250, "keep")\<close> the posted height is 150, not 250.
\<close>

theorem updateVariant_height_takes_width:
  "issued example_world
     (updateVariant example_client ''thumb'' ''cover'' 150 250 ''keep'' example_world) =
     [variant_get example_client ''thumb'',
      variant_post example_client ''thumb''
        (PDict [(''fit'', PStr ''cover''), (''metadata'', PStr ''keep''),
                (''width'', PInt 150), (''height'', PInt 150)])]
   \<and> getitem example_details ''height'' = Inr (PInt 200)
   \<and> py_ne_int (PInt 200) 250"
  by (simp add: example_updateVariant_issued example_details_def)

text \<open>
  C2 places the defect in the branch taken when the new height equals the fetched one.
  That branch posts the fetched height: with fetched width 100 and height 200, and the
  arguments width 150 and height 200, the posted height is 200, which is neither width.
\<close>

theorem updateVariant_unchanged_height_counterexample:
  "getitem example_details ''height'' = Inr (PInt 200)
   \<and> \<not> py_ne_int (PInt 200) 200
   \<and> getitem example_details ''width'' = Inr (PInt 100)
   \<and> and_then (updateVariant_payload example_details ''cover'' 150 200 ''none'')
        (\<lambda>payload. getitem payload ''height'') = Inr (PInt 200)
   \<and> and_then (updateVariant_payload example_details ''cover'' 150 200 ''none'')
        (\<lambda>payload. getitem payload ''height'') \<noteq> getitem example_details ''width''
   \<and> and_then (updateVariant_payload example_details ''cover'' 150 200 ''none'')
        (\<lambda>payload. getitem payload ''height'') \<noteq> Inr (PInt 150)"
  by (simp add: updateVariant_payload_def example_details_def and_then_def)

lemma updateVariant_payload_height:
  assumes "updateVariant_payload details fitType width height metaDataToSave = Inr payload"
  shows "\<exists>d_height. getitem details ''height'' = Inr d_height
          \<and> getitem payload ''height'' = Inr (if py_ne_int d_height height then PInt width else d_height)"
  using assms
  by (auto simp: updateVariant_payload_def and_then_def split: sum.splits)

text \<open>
  C2, as amended: when the new height argument equals the fetched height, the posted
  height is the fetched height; and the height comparison reads the fetched height, so
  fetched options that agree on \<open>height\<close> give the same posted height whatever their
  \<open>width\<close>.
\<close>

theorem updateVariant_unchanged_height:
  "(updateVariant_payload details fitType width height metaDataToSave = Inr payload
      \<and> getitem details ''height'' = Inr d_height \<and> \<not> py_ne_int d_height height
      \<longrightarrow> getitem payload ''height'' = Inr d_height)
   \<and> (updateVariant_payload details fitType width height metaDataToSave = Inr payload
      \<and> updateVariant_payload details' fitType width height metaDataToSave = Inr payload'
      \<and> getitem details ''height'' = getitem details' ''height''
      \<longrightarrow> getitem payload ''height'' = getitem payload' ''height'')"
proof (intro conjI impI)
  assume a: "updateVariant_payload details fitType width height metaDataToSave = Inr payload
      \<and> getitem details ''height'' = Inr d_height \<and> \<not> py_ne_int d_height height"
  with updateVariant_payload_height [of details fitType width height metaDataToSave payload]
  show "getitem payload ''height'' = Inr d_height" by auto
next
  assume a: "updateVariant_payload details fitType width height metaDataToSave = Inr payload
      \<and> updateVariant_payload details' fitType width height metaDataToSave = Inr payload'
      \<and> getitem details ''height'' = getitem details' ''height''"
  with updateVariant_payload_height [of details fitType width height metaDataToSave payload]
    updateVariant_payload_height [of details' fitType width height metaDataToSave payload']
  show "getitem payload ''height'' = getitem payload' ''height''" by auto
qed

theorem updateVariant_unchanged_height_witness:
  "updateVariant_payload example_details ''cover'' 150 200 ''none'' =
     Inr (PDict [(''fit'', PStr ''cover''), (''metadata'', PStr ''none''),
                 (''width'', PInt 150), (''height'', PInt 200)])
   \<and> updateVariant_payload example_details_wide ''cover'' 150 200 ''none'' =
     Inr (PDict [(''fit'', PStr ''cover''), (''metadata'', PStr ''none''),
                 (''width'', PInt 150), (''height'', PInt 200)])
   \<and> getitem example_details ''height'' = Inr (PInt 200)
   \<and> getitem example_details ''height'' = getitem example_details_wide ''height''
   \<and> \<not> py_ne_int (PInt 200) 200
   \<and> getitem (PDict [(''fit'', PStr ''cover''), (''metadata'', PStr ''none''),
                 (''width'', PInt 150), (''height'', PInt 200)]) ''height'' = Inr (PInt 200)"
proof -
  have p: "updateVariant_payload example_details ''cover'' 150 200 ''none'' =
     Inr (PDict [(''fit'', PStr ''cover''), (''metadata'', PStr ''none''),
                 (''width'', PInt 150), (''height'', PInt 200)])"
    by (simp add: updateVariant_payload_def example_details_def and_then_def)
  have p': "updateVariant_payload example_details_wide ''cover'' 150 200 ''none'' =
     Inr (PDict [(''fit'', PStr ''cover''), (''metadata'', PStr ''none''),
                 (''width'', PInt 150), (''height'', PInt 200)])"
    by (simp add: updateVariant_payload_def example_details_wide_def and_then_def)
  have h: "getitem example_details ''height'' = Inr (PInt 200)"
    by (simp add: example_details_def)
  have h': "getitem example_details ''height'' = getitem example_details_wide ''height''"
    by (simp add: example_details_def example_details_wide_def)
  have n: "\<not> py_ne_int (PInt 200) 200" by simp
  note t = updateVariant_unchanged_height [where details = example_details
      and details' = example_details_wide and fitType = "''cover''" and width = 150
      and height = 200 and metaDataToSave = "''none''" and d_height = "PInt 200"
      and payload = "PDict [(''fit'', PStr ''cover''), (''metadata'', PStr ''none''),
                 (''width'', PInt 150), (''height'', PInt 200)]"
      and payload' = "PDict [(''fit'', PStr ''cover''), (''metadata'', PStr ''none''),
                 (''width'', PInt 150), (''height'', PInt 200)]"]
  from t p h n
  have "getitem (PDict [(''fit'', PStr ''cover''), (''metadata'', PStr ''none''),
                 (''width'', PInt 150), (''height'', PInt 200)]) ''height'' = Inr (PInt 200)"
    by blast
  moreover from t p p' h'
  have "getitem (PDict [(''fit'', PStr ''cover''), (''metadata'', PStr ''none''),
                 (''width'', PInt 150), (''height'', PInt 200)]) ''height''
        = getitem (PDict [(''fit'', PStr ''cover''), (''metadata'', PStr ''none''),
                 (''width'', PInt 150), (''height'', PInt 200)]) ''height''"
    by blast
  ultimately show ?thesis using p p' h h' n by blast
qed

section \<open>Authentication headers\<close>

lemma init_headers:
  "requestHeaders (init k a e h) = [(''X-Auth-Key'', k), (''X-Auth-Email'', e)]"
  by (simp add: init_def)

text \<open>
  C6: for a client built by the constructor from \<open>apiKey\<close> and \<open>email\<close>, every request
  that any of the ten operations sends carries exactly the two headers \<open>X-Auth-Key\<close>,
  set to \<open>apiKey\<close>, and \<open>X-Auth-Email\<close>, set to \<open>email\<close>.
\<close>

theorem auth_headers_on_every_request:
  assumes "self = init k a e h"
  shows "(\<forall>r\<in>set (issued w (listImages self page perPage w)).
            req_headers r = [(''X-Auth-Key'', k), (''X-Auth-Email'', e)])
       \<and> (\<forall>r\<in>set (issued w (createDirectUploadLink self requireSignedURLs metaData expiry w)).
            req_headers r = [(''X-Auth-Key'', k), (''X-Auth-Email'', e)])
       \<and> (\<forall>r\<in>set (issued w (upload self directUploadResponse imagePath w)).
            req_headers r = [(''X-Auth-Key'', k), (''X-Auth-Email'', e)])
       \<and> (\<forall>r\<in>set (issued w (listVariants self w)).
            req_headers r = [(''X-Auth-Key'', k), (''X-Auth-Email'', e)])
       \<and> (\<forall>r\<in>set (issued w (createVariant self name fitType width height metaDataToSave
                                  neverRequireSignedURLs w)).
            req_headers r = [(''X-Auth-Key'', k), (''X-Auth-Email'', e)])
       \<and> (\<forall>r\<in>set (issued w (deleteImage self id' w)).
            req_headers r = [(''X-Auth-Key'', k), (''X-Auth-Email'', e)])
       \<and> (\<forall>r\<in>set (issued w (getVariantDetails self name w)).
            req_headers r = [(''X-Auth-Key'', k), (''X-Auth-Email'', e)])
       \<and> (\<forall>r\<in>set (issued w (updateVariant self name fitType width height metaDataToSave w)).
            req_headers r = [(''X-Auth-Key'', k), (''X-Auth-Email'', e)])
       \<and> (\<forall>r\<in>set (issued w (deleteVariant self name w)).
            req_headers r = [(''X-Auth-Key'', k), (''X-Auth-Email'', e)])
       \<and> (\<forall>r\<in>set (issued w (getImageDetails self id' w)).
            req_headers r = [(''X-Auth-Key'', k), (''X-Auth-Email'', e)])"
proof -
  have hs: "requestHeaders self = [(''X-Auth-Key'', k), (''X-Auth-Email'', e)]"
    using assms by (simp add: init_headers)
  have 1: "\<forall>r\<in>set (issued w (listImages self page perPage w)).
            req_headers r = [(''X-Auth-Key'', k), (''X-Auth-Email'', e)]"
    by (simp add: listImages_def requests_get_def issued_json_of_send hs)
  have 2: "\<forall>r\<in>set (issued w (createDirectUploadLink self requireSignedURLs metaData expiry w)).
            req_headers r = [(''X-Auth-Key'', k), (''X-Auth-Email'', e)]"
    by (simp add: createDirectUploadLink_def requests_post_def issued_json_of_send hs Let_def)
  have 3: "\<forall>r\<in>set (issued w (upload self directUploadResponse imagePath w)).
            req_headers r = [(''X-Auth-Key'', k), (''X-Auth-Email'', e)]"
    using issued_upload_headers [of w self directUploadResponse imagePath] by (simp add: hs)
  have 4: "\<forall>r\<in>set (issued w (listVariants self w)).
            req_headers r = [(''X-Auth-Key'', k), (''X-Auth-Email'', e)]"
    by (simp add: listVariants_def requests_get_def issued_json_of_send hs)
  have 5: "\<forall>r\<in>set (issued w (createVariant self name fitType width height metaDataToSave
                                  neverRequireSignedURLs w)).
            req_headers r = [(''X-Auth-Key'', k), (''X-Auth-Email'', e)]"
    by (simp add: createVariant_def requests_post_def issued_json_of_send hs)
  have 6: "\<forall>r\<in>set (issued w (deleteImage self id' w)).
            req_headers r = [(''X-Auth-Key'', k), (''X-Auth-Email'', e)]"
    by (simp add: deleteImage_def requests_delete_def issued_json_of_send hs)
  have 7: "\<forall>r\<in>set (issued w (getVariantDetails self name w)).
            req_headers r = [(''X-Auth-Key'', k), (''X-Auth-Email'', e)]"
    by (simp add: getVariantDetails_def requests_get_def issued_json_of_send hs)
  have 8: "\<forall>r\<in>set (issued w (updateVariant self name fitType width height metaDataToSave w)).
            req_headers r = [(''X-Auth-Key'', k), (''X-Auth-Email'', e)]"
    using issued_updateVariant_headers [of w self name fitType width height metaDataToSave]
    by (simp add: hs)
  have 9: "\<forall>r\<in>set (issued w (deleteVariant self name w)).
            req_headers r = [(''X-Auth-Key'', k), (''X-Auth-Email'', e)]"
    by (simp add: deleteVariant_def requests_delete_def issued_json_of_send hs)
  have 10: "\<forall>r\<in>set (issued w (getImageDetails self id' w)).
            req_headers r = [(''X-Auth-Key'', k), (''X-Auth-Email'', e)]"
    by (simp add: getImageDetails_def requests_get_def issued_json_of_send hs)
  from 1 2 3 4 5 6 7 8 9 10 show ?thesis by blast
qed

lemma example_upload:
  "upload example_client example_descriptor ''photo.bmp'' example_world =
     text_of (send (upload_request example_client ''https://x/up'' ''photo.bmp'' ''BM'') example_world)"
  by (rule upload_posts) (simp_all add: example_world_def disk_def example_descriptor_def and_then_def)

theorem auth_headers_on_every_request_witness:
  "example_client = init ''key'' ''acct'' ''me@example.com'' ''hash''
   \<and> length (issued example_world
        (updateVariant example_client ''thumb'' ''cover'' 150 250 ''keep'' example_world)) = 2
   \<and> list_all (\<lambda>r. req_headers r = [(''X-Auth-Key'', ''key''), (''X-Auth-Email'', ''me@example.com'')])
        (issued example_world
          (updateVariant example_client ''thumb'' ''cover'' 150 250 ''keep'' example_world))
   \<and> length (issued example_world
        (upload example_client example_descriptor ''photo.bmp'' example_world)) = 1
   \<and> list_all (\<lambda>r. req_headers r = [(''X-Auth-Key'', ''key''), (''X-Auth-Email'', ''me@example.com'')])
        (issued example_world
          (upload example_client example_descriptor ''photo.bmp'' example_world))"
proof -
  have c: "example_client = init ''key'' ''acct'' ''me@example.com'' ''hash''"
    by (simp add: example_client_def)
  note t = auth_headers_on_every_request [OF c, where w = example_world and page = 1
      and perPage = 50 and requireSignedURLs = False and metaData = None and expiry = None
      and directUploadResponse = example_descriptor and imagePath = "''photo.bmp''"
      and name = "''thumb''" and fitType = "''cover''" and width = 150 and height = 250
      and metaDataToSave = "''keep''" and neverRequireSignedURLs = False and id' = "''img1''"]
  have l2: "length (issued example_world
        (updateVariant example_client ''thumb'' ''cover'' 150 250 ''keep'' example_world)) = 2"
    by (simp add: example_updateVariant_issued)
  have l1: "length (issued example_world
        (upload example_client example_descriptor ''photo.bmp'' example_world)) = 1"
    by (simp add: example_upload issued_text_of_send)
  from c t l1 l2 show ?thesis
    unfolding list_all_iff by blast
qed

section \<open>Uploading\<close>

text \<open>
  C8: \<open>upload\<close> consults neither the format check nor the declared limits. For every
  path that can be opened, whatever its extension and whatever the size or content of its
  bytes, and every descriptor holding an upload URL, it sends its one POST with the file.
\<close>

theorem upload_never_checks_the_image:
  assumes "disk w imagePath = Some bytes"
    and "and_then (getitem directUploadResponse ''result'') (\<lambda>r. getitem r ''uploadURL'') = Inr (PStr u)"
  shows "issued w (upload self directUploadResponse imagePath w) =
           [\<lparr>req_method = POST, req_url = u, req_headers = requestHeaders self,
             req_params = None, req_json = None,
             req_files = Some [(''file'', \<lparr>file_name = imagePath, file_data = bytes\<rparr>)]\<rparr>]"
  using upload_posts [OF assms, of self]
  by (simp add: issued_text_of_send upload_request_def)

theorem upload_never_checks_the_image_witness:
  "\<not> checkIfImageSupported example_client ''photo.bmp''
   \<and> disk example_world ''photo.bmp'' = Some ''BM''
   \<and> and_then (getitem example_descriptor ''result'') (\<lambda>r. getitem r ''uploadURL'')
       = Inr (PStr ''https://x/up'')
   \<and> issued example_world (upload example_client example_descriptor ''photo.bmp'' example_world) =
           [\<lparr>req_method = POST, req_url = ''https://x/up'',
             req_headers = requestHeaders example_client,
             req_params = None, req_json = None,
             req_files = Some [(''file'', \<lparr>file_name = ''photo.bmp'', file_data = ''BM''\<rparr>)]\<rparr>]"
proof -
  have n: "\<not> checkIfImageSupported example_client ''photo.bmp''" by code_simp
  have d: "disk example_world ''photo.bmp'' = Some ''BM''"
    by (simp add: example_world_def disk_def)
  have u: "and_then (getitem example_descriptor ''result'') (\<lambda>r. getitem r ''uploadURL'')
       = Inr (PStr ''https://x/up'')"
    by (simp add: example_descriptor_def and_then_def)
  from n d u upload_never_checks_the_image [OF d u, of example_client] show ?thesis by blast
qed









end
